theory Spec2Isabelle
  imports Main "HOL-Library.Multiset"
begin

section \<open>Data model of the stories duck (ts/state/ducks/stories.ts)\<close>

text \<open>
  The record types below carry the fields that the code reads or writes. Types that the
  duck imports from other modules and never inspects (the elements of a reaction list,
  the per-recipient send state, the entries of an edit history) are type parameters:
  \<open>'r\<close>, \<open>'s\<close> and \<open>'e\<close>. The remaining fields of an attachment and of a message are the
  extension part of the record (\<open>'a\<close> and \<open>'m\<close>), so that an object spread
  \<open>{...x, f: v}\<close> is the record update \<open>x\<lparr>f := v\<rparr>\<close> and keeps them.

  An optional field \<open>f?: T\<close> is a \<open>T option\<close>. The flag \<open>deletedForEveryone\<close> is only
  ever tested for truthiness, so an absent flag is \<open>False\<close>. Timestamps are integers
  (milliseconds).
\<close>

record AttachmentType =
  path :: "string option"
  url :: "string option"

datatype ReadStatus = Unread | Viewed

text \<open>The argument of \<open>deleteStoryForEveryone\<close> is a \<open>StoryViewType\<close>, whose \<open>sendState\<close> is
  a list of entries each holding its \<open>recipient\<close>, a conversation with an \<open>id\<close>.\<close>

record ConversationType =
  id' :: string

record 'c StorySendStateType =
  recipient :: "'c ConversationType_scheme"

record 'c StoryViewType =
  messageId :: string
  sendState :: "'c StorySendStateType list option"
  timestamp :: int

record ('e, 's) MessageAttributesType =
  id' :: string
  storyId :: "string option"
  body :: "string option"
  conversationId :: string
  deletedForEveryone :: bool
  editHistory :: "'e list option"
  sendStateByConversationId :: "(string \<rightharpoonup> 's) option"
  sent_at :: int
  source :: "string option"
  sourceUuid :: "string option"

record ('e, 's, 'm) ReplyState =
  messageId :: string
  replies :: "('e, 's, 'm) MessageAttributesType_scheme list"

record ('a, 'r, 's) StoryDataType =
  attachment :: "'a AttachmentType_scheme option"
  messageId :: string
  canReplyToStory :: "bool option"
  conversationId :: string
  deletedForEveryone :: bool
  reactions :: "'r list option"
  readStatus :: "ReadStatus option"
  sendStateByConversationId :: "(string \<rightharpoonup> 's) option"
  source :: "string option"
  sourceUuid :: "string option"
  storyDistributionListId :: "string option"
  timestamp :: int
  type :: string

record ('a, 'r, 's, 'e, 'm) StoriesStateType =
  isShowingStoriesView :: bool
  replyState :: "('e, 's, 'm) ReplyState option"
  stories :: "('a, 'r, 's) StoryDataType list"

text \<open>
  The actions the reducer distinguishes, each with the part of its payload that the
  reducer reads: \<open>MESSAGE_CHANGED\<close> carries \<open>payload.id\<close> and \<open>payload.data\<close>,
  \<open>MESSAGE_DELETED\<close> carries \<open>payload.id\<close>. \<open>NOOP\<close> stands for every action type the
  reducer does not test for.
\<close>

datatype ('a, 'r, 's, 'e, 'm) StoriesActionType =
    DOE_STORY string
  | LOAD_STORY_REPLIES string "('e, 's, 'm) MessageAttributesType_scheme list"
  | MARK_STORY_READ string
  | MESSAGE_CHANGED string "('e, 's, 'm) MessageAttributesType_scheme"
  | MESSAGE_DELETED string
  | REPLY_TO_STORY "('e, 's, 'm) MessageAttributesType_scheme"
  | RESOLVE_ATTACHMENT_URL string string
  | STORY_CHANGED "('a, 'r, 's) StoryDataType"
  | TOGGLE_VIEW
  | NOOP

text \<open>
  The reducer either returns its argument (\<open>return state\<close>, the same reference) or builds
  a new object. \<open>SameRef\<close> is the first, \<open>NewObj s\<close> the second; \<open>nextState\<close> reads the
  state the store holds afterwards.
\<close>

datatype 'st Returned = SameRef | NewObj 'st

fun nextState :: "'st \<Rightarrow> 'st Returned \<Rightarrow> 'st" where
  "nextState state SameRef = state"
| "nextState state (NewObj s) = s"

section \<open>Library functions\<close>

text \<open>\<open>Array.prototype.findIndex\<close>: the first index whose element satisfies the
  predicate; \<open>None\<close> is the result \<open>-1\<close>.\<close>

fun findIndex :: "('x \<Rightarrow> bool) \<Rightarrow> 'x list \<Rightarrow> nat option" where
  "findIndex P [] = None"
| "findIndex P (x # xs) = (if P x then Some 0 else map_option Suc (findIndex P xs))"

text \<open>Modelled from the spec: \<open>replaceIndex\<close> (ts/util/replaceIndex is not among the
  sources) "replaces in place": a copy of the array with the element at the index
  replaced. The reducer calls it only with an index that \<open>findIndex\<close> returned.\<close>

definition replaceIndex :: "'x list \<Rightarrow> nat \<Rightarrow> 'x \<Rightarrow> 'x list" where
  "replaceIndex arr index newItem = arr[index := newItem]"

text \<open>
  \<open>Array.prototype.sort\<close> with a comparator is a builtin of the runtime. It is modelled
  as an insertion sort that moves an element to the right of another exactly when the
  comparator, called on the two, returns a positive number.
\<close>

fun sortInsert :: "('x \<Rightarrow> 'x \<Rightarrow> int) \<Rightarrow> 'x \<Rightarrow> 'x list \<Rightarrow> 'x list" where
  "sortInsert compareFn a [] = [a]"
| "sortInsert compareFn a (b # bs) =
     (if compareFn a b > 0 then b # sortInsert compareFn a bs else a # b # bs)"

fun sortInto :: "('x \<Rightarrow> 'x \<Rightarrow> int) \<Rightarrow> 'x list \<Rightarrow> 'x list \<Rightarrow> 'x list" where
  "sortInto compareFn acc [] = acc"
| "sortInto compareFn acc (a # rest) = sortInto compareFn (sortInsert compareFn a acc) rest"

definition Array_sort :: "('x \<Rightarrow> 'x \<Rightarrow> int) \<Rightarrow> 'x list \<Rightarrow> 'x list" where
  "Array_sort compareFn arr = sortInto compareFn [] arr"

section \<open>The reducer\<close>

text \<open>The comparator of the sort in the \<open>STORY_CHANGED\<close> branch:
  \<open>(a, b) => a.timestamp > b.timestamp ? 1 : -1\<close>.\<close>

definition compareTimestamp :: "('a, 'r, 's) StoryDataType \<Rightarrow> ('a, 'r, 's) StoryDataType \<Rightarrow> int" where
  "compareTimestamp a b = (if timestamp a > timestamp b then 1 else -1)"

text \<open>
  The predicates \<open>isDownloaded\<close> and \<open>isDownloading\<close> of ts/types/Attachment are not among
  the sources; the reducer takes them as its first two arguments. \<open>pick\<close> copies the
  thirteen fields of \<open>StoryDataType\<close> and is the identity on a value of that type.
\<close>

fun reducer ::
  "('a AttachmentType_scheme option \<Rightarrow> bool) \<Rightarrow> ('a AttachmentType_scheme option \<Rightarrow> bool) \<Rightarrow>
   ('a, 'r, 's, 'e, 'm) StoriesStateType \<Rightarrow> ('a, 'r, 's, 'e, 'm) StoriesActionType \<Rightarrow>
   ('a, 'r, 's, 'e, 'm) StoriesStateType Returned" where
  "reducer isDownloaded isDownloading state TOGGLE_VIEW =
     NewObj (state\<lparr>isShowingStoriesView := \<not> isShowingStoriesView state\<rparr>)"
| "reducer isDownloaded isDownloading state (MESSAGE_DELETED payload_id) =
     (let nextStories = filter (\<lambda>story. messageId story \<noteq> payload_id) (stories state) in
      if length nextStories = length (stories state) then SameRef
      else NewObj (state\<lparr>stories := nextStories\<rparr>))"
| "reducer isDownloaded isDownloading state (STORY_CHANGED payload) =
     (let newStory = payload in
      case findIndex (\<lambda>existingStory. messageId existingStory = messageId newStory) (stories state) of
        Some prevStoryIndex \<Rightarrow>
          (let prevStory = stories state ! prevStoryIndex;
               isDownloadingAttachment = isDownloading (attachment newStory);
               hasAttachmentDownloaded =
                 (\<not> isDownloaded (attachment prevStory) \<and> isDownloaded (attachment newStory));
               readStatusChanged = (readStatus prevStory \<noteq> readStatus newStory);
               reactionsChanged =
                 (map_option length (reactions prevStory) \<noteq> map_option length (reactions newStory));
               hasBeenDeleted = (\<not> deletedForEveryone prevStory \<and> deletedForEveryone newStory);
               hasSendStateChanged =
                 (sendStateByConversationId prevStory \<noteq> sendStateByConversationId newStory);
               shouldReplace =
                 (isDownloadingAttachment \<or> hasAttachmentDownloaded \<or> hasBeenDeleted \<or>
                  hasSendStateChanged \<or> readStatusChanged \<or> reactionsChanged)
           in if \<not> shouldReplace then SameRef
              else NewObj (state\<lparr>stories := replaceIndex (stories state) prevStoryIndex newStory\<rparr>))
      | None \<Rightarrow>
          NewObj (state\<lparr>stories := Array_sort compareTimestamp (stories state @ [newStory])\<rparr>))"
| "reducer isDownloaded isDownloading state (MARK_STORY_READ payload) =
     NewObj (state\<lparr>stories :=
       map (\<lambda>story. if messageId story = payload then story\<lparr>readStatus := Some Viewed\<rparr> else story)
         (stories state)\<rparr>)"
| "reducer isDownloaded isDownloading state (LOAD_STORY_REPLIES payload_messageId payload_replies) =
     NewObj (state\<lparr>replyState :=
       Some \<lparr>ReplyState.messageId = payload_messageId, replies = payload_replies\<rparr>\<rparr>)"
| "reducer isDownloaded isDownloading state (MESSAGE_CHANGED payload_id payload_data) =
     (case replyState state of
        None \<Rightarrow> SameRef
      | Some replyState' \<Rightarrow>
          if Some (ReplyState.messageId replyState') = storyId payload_data then
            (case findIndex (\<lambda>reply. id' reply = payload_id) (replies replyState') of
               None \<Rightarrow>
                 NewObj (state\<lparr>replyState := Some
                   \<lparr>ReplyState.messageId = ReplyState.messageId replyState',
                    replies = replies replyState' @ [payload_data]\<rparr>\<rparr>)
             | Some messageIndex \<Rightarrow>
                 NewObj (state\<lparr>replyState := Some
                   \<lparr>ReplyState.messageId = ReplyState.messageId replyState',
                    replies = replaceIndex (replies replyState') messageIndex payload_data\<rparr>\<rparr>))
          else SameRef)"
| "reducer isDownloaded isDownloading state (REPLY_TO_STORY payload) =
     (case replyState state of
        None \<Rightarrow> SameRef
      | Some replyState' \<Rightarrow>
          NewObj (state\<lparr>replyState := Some
            \<lparr>ReplyState.messageId = ReplyState.messageId replyState',
             replies = replies replyState' @ [payload]\<rparr>\<rparr>))"
| "reducer isDownloaded isDownloading state (RESOLVE_ATTACHMENT_URL messageId' attachmentUrl) =
     (case findIndex (\<lambda>existingStory. messageId existingStory = messageId') (stories state) of
        None \<Rightarrow> SameRef
      | Some storyIndex \<Rightarrow>
          (let story = stories state ! storyIndex in
           case attachment story of
             None \<Rightarrow> SameRef
           | Some story_attachment \<Rightarrow>
               (let storyWithResolvedAttachment =
                      story\<lparr>attachment := Some (story_attachment\<lparr>url := Some attachmentUrl\<rparr>)\<rparr>
                in NewObj (state\<lparr>stories :=
                     replaceIndex (stories state) storyIndex storyWithResolvedAttachment\<rparr>))))"
| "reducer isDownloaded isDownloading state (DOE_STORY payload) =
     (case findIndex (\<lambda>existingStory. messageId existingStory = payload) (stories state) of
        None \<Rightarrow> SameRef
      | Some prevStoryIndex \<Rightarrow>
          NewObj (state\<lparr>stories := replaceIndex (stories state) prevStoryIndex
            ((stories state ! prevStoryIndex)\<lparr>deletedForEveryone := True\<rparr>)\<rparr>))"
| "reducer isDownloaded isDownloading state NOOP = SameRef"

text \<open>\<open>getEmptyState()\<close> without an override.\<close>

definition getEmptyState :: "('a, 'r, 's, 'e, 'm) StoriesStateType" where
  "getEmptyState = \<lparr>isShowingStoriesView = False, replyState = None, stories = []\<rparr>"

section \<open>The action creators\<close>

text \<open>
  A thunk reads the store, calls collaborators and dispatches. Its model returns the
  calls it makes that have an effect outside the thunk, in the order it makes them, and
  the error it rejects with, if any. What a collaborator returns, and whether an awaited
  call rejects, is an argument of the model.
\<close>

datatype SyncType = SyncType string "string option" "string option" int
  \<comment> \<open>\<open>messageId\<close>, \<open>senderE164\<close>, \<open>senderUuid\<close>, \<open>timestamp\<close>\<close>

datatype StoryReadType = StoryReadType "string option" string string int
  \<comment> \<open>\<open>authorId\<close>, \<open>conversationId\<close>, \<open>storyId\<close>, \<open>storyReadDate\<close>\<close>

datatype Toast = ToastReactionFailed

datatype ('conv, 'msg, 'act, 'err) Effect =
    Log_warn string
  | Log_error string 'err string string
  | SendDeleteForEveryoneMessage 'conv int string int
      \<comment> \<open>conversation attributes, \<open>deleteForEveryoneDuration\<close>, \<open>id\<close>, \<open>timestamp\<close>\<close>
  | MarkViewed 'msg int
  | ViewSyncJobQueue_add "SyncType list"
  | ViewedReceiptsJobQueue_add SyncType
  | AddNewStoryRead StoryReadType
  | EnqueueReactionForSend string string bool
      \<comment> \<open>\<open>messageId\<close>, \<open>emoji\<close>, \<open>remove\<close>\<close>
  | ShowToast Toast
  | Dispatch 'act

record ('conv, 'msg, 'act, 'err) ThunkRun =
  effects :: "('conv, 'msg, 'act, 'err) Effect list"
  rejected :: "'err option"

text \<open>Modelled from the spec: \<open>DAY\<close> (ts/util/durations is not among the sources) is a
  duration of one day, here in milliseconds.\<close>

definition DAY :: int where
  "DAY = 24 * 60 * 60 * 1000"

subsection \<open>deleteStoryForEveryone\<close>

text \<open>
  \<open>new Set(xs)\<close> keeps the first occurrence of each element, in order, and
  \<open>Set.prototype.forEach\<close> visits in that order: a set is a list without duplicates.
  Deleting every key of an object from the set does not depend on the order of the keys.
\<close>

definition new_Set :: "'x list \<Rightarrow> 'x list" where
  "new_Set xs = rev (remdups (rev xs))"

definition deleteKeys :: "(string \<rightharpoonup> 's) \<Rightarrow> string list \<Rightarrow> string list" where
  "deleteKeys obj conversationIds =
     filter (\<lambda>conversationId. obj conversationId = None) conversationIds"

definition forEachStory ::
  "('c, 'v) StoryViewType_scheme \<Rightarrow> string list \<Rightarrow> ('a, 'r, 's) StoryDataType \<Rightarrow> string list" where
  "forEachStory story conversationIds item =
     (if timestamp item \<noteq> StoryViewType.timestamp story then conversationIds
      else case sendStateByConversationId item of
             None \<Rightarrow> conversationIds
           | Some obj \<Rightarrow> deleteKeys obj conversationIds)"

definition deleteStoryForEveryone ::
  "(string \<Rightarrow> 'conv option) \<Rightarrow> ('a, 'r, 's, 'e, 'm) StoriesStateType \<Rightarrow>
   ('c, 'v) StoryViewType_scheme \<Rightarrow>
   ('conv, 'msg, ('a, 'r, 's, 'e, 'm) StoriesActionType, 'err) ThunkRun" where
  "deleteStoryForEveryone ConversationController_get state story =
     (case sendState story of
        None \<Rightarrow> \<lparr>effects = [], rejected = None\<rparr>
      | Some story_sendState \<Rightarrow>
          (let conversationIds =
                 new_Set (map (\<lambda>s. ConversationType.id' (recipient s)) story_sendState);
               conversationIds = foldl (forEachStory story) conversationIds (stories state);
               sends = concat (map (\<lambda>cid.
                 case ConversationController_get cid of
                   None \<Rightarrow> []
                 | Some conversation \<Rightarrow>
                     [SendDeleteForEveryoneMessage conversation DAY
                        (StoryViewType.messageId story) (StoryViewType.timestamp story)])
                 conversationIds)
           in \<lparr>effects = sends @ [Dispatch (DOE_STORY (StoryViewType.messageId story))],
               rejected = None\<rparr>))"

subsection \<open>markStoryRead\<close>

text \<open>
  The collaborators are arguments: \<open>getMessageById\<close> resolves with the attributes of a
  message or with nothing, or rejects (\<open>Inl\<close>); \<open>Date_now\<close> is the clock reading;
  \<open>areWePrimaryDevice\<close> the answer of the conversation controller; \<open>addNewStoryRead\<close>
  resolves (\<open>None\<close>) or rejects. The two job queues are not awaited.
\<close>

definition markStoryRead ::
  "('a AttachmentType_scheme option \<Rightarrow> bool) \<Rightarrow>
   (string \<Rightarrow> 'err + ('e, 's, 'm) MessageAttributesType_scheme option) \<Rightarrow>
   int \<Rightarrow> bool \<Rightarrow> (StoryReadType \<Rightarrow> 'err option) \<Rightarrow>
   ('a, 'r, 's, 'e, 'm) StoriesStateType \<Rightarrow> string \<Rightarrow>
   ('conv, ('e, 's, 'm) MessageAttributesType_scheme,
    ('a, 'r, 's, 'e, 'm) StoriesActionType, 'err) ThunkRun" where
  "markStoryRead isDownloaded getMessageById Date_now areWePrimaryDevice addNewStoryRead
      state messageId' =
     (case find (\<lambda>story. messageId story = messageId') (stories state) of
        None \<Rightarrow>
          \<lparr>effects = [Log_warn (''markStoryRead: no matching story found: '' @ messageId')],
           rejected = None\<rparr>
      | Some matchingStory \<Rightarrow>
          if \<not> isDownloaded (attachment matchingStory) then \<lparr>effects = [], rejected = None\<rparr>
          else if readStatus matchingStory \<noteq> Some Unread then \<lparr>effects = [], rejected = None\<rparr>
          else
            (case getMessageById messageId' of
               Inl error \<Rightarrow> \<lparr>effects = [], rejected = Some error\<rparr>
             | Inr None \<Rightarrow> \<lparr>effects = [], rejected = None\<rparr>
             | Inr (Some message) \<Rightarrow>
                 (let storyReadDate = Date_now;
                      viewedReceipt = SyncType messageId' (MessageAttributesType.source message)
                        (MessageAttributesType.sourceUuid message) (sent_at message);
                      viewSyncs = [viewedReceipt];
                      storyRead = StoryReadType (MessageAttributesType.sourceUuid message)
                        (MessageAttributesType.conversationId message) messageId' storyReadDate;
                      before = [MarkViewed message storyReadDate] @
                        (if \<not> areWePrimaryDevice then [ViewSyncJobQueue_add viewSyncs] else []) @
                        [ViewedReceiptsJobQueue_add viewedReceipt, AddNewStoryRead storyRead]
                  in case addNewStoryRead storyRead of
                       Some error \<Rightarrow> \<lparr>effects = before, rejected = Some error\<rparr>
                     | None \<Rightarrow>
                         \<lparr>effects = before @ [Dispatch (MARK_STORY_READ messageId')],
                          rejected = None\<rparr>)))"

subsection \<open>reactToStory\<close>

text \<open>\<open>enqueueReactionForSend\<close> resolves (\<open>None\<close>) or rejects with an error.\<close>

definition reactToStory ::
  "(string \<Rightarrow> string \<Rightarrow> bool \<Rightarrow> 'err option) \<Rightarrow> string \<Rightarrow> string \<Rightarrow>
   ('conv, 'msg, ('a, 'r, 's, 'e, 'm) StoriesActionType, 'err) ThunkRun" where
  "reactToStory enqueueReactionForSend nextReaction messageId' =
     (let catch = (case enqueueReactionForSend messageId' nextReaction False of
                     None \<Rightarrow> []
                   | Some error \<Rightarrow>
                       [Log_error ''Error enqueuing reaction'' error messageId' nextReaction,
                        ShowToast ToastReactionFailed])
      in \<lparr>effects = [EnqueueReactionForSend messageId' nextReaction False] @ catch @
            [Dispatch NOOP],
          rejected = None\<rparr>)"

section \<open>canEditMessage (ts/util/canEditMessage.ts)\<close>

text \<open>
  The helpers \<open>canEditMessages\<close>, \<open>isOutgoing\<close>, \<open>isMoreRecentThan\<close>, \<open>someSendStatus\<close>,
  \<open>isSent\<close> and the conversation controller's \<open>getOurConversationId\<close> are not among the
  sources; they are arguments. \<open>Boolean(message.body)\<close> holds for a body that is present
  and not the empty string.
\<close>

definition MAX_EDIT_COUNT :: nat where
  "MAX_EDIT_COUNT = 10"

definition canEditMessage ::
  "bool \<Rightarrow> (('e, 's, 'm) MessageAttributesType_scheme \<Rightarrow> bool) \<Rightarrow> (int \<Rightarrow> int \<Rightarrow> bool) \<Rightarrow>
   ((string \<rightharpoonup> 's) option \<Rightarrow> ('s \<Rightarrow> bool) \<Rightarrow> bool) \<Rightarrow> ('s \<Rightarrow> bool) \<Rightarrow> string option \<Rightarrow>
   ('e, 's, 'm) MessageAttributesType_scheme \<Rightarrow> bool" where
  "canEditMessage canEditMessages isOutgoing isMoreRecentThan someSendStatus isSent
      getOurConversationId message =
     (let result =
            (canEditMessages \<and>
             \<not> MessageAttributesType.deletedForEveryone message \<and>
             isOutgoing message \<and>
             isMoreRecentThan (sent_at message) DAY \<and>
             (case editHistory message of None \<Rightarrow> 0 | Some h \<Rightarrow> length h) \<le> MAX_EDIT_COUNT \<and>
             someSendStatus (MessageAttributesType.sendStateByConversationId message) isSent \<and>
             (case body message of None \<Rightarrow> False | Some b \<Rightarrow> b \<noteq> ''''))
      in if result then True
         else if Some (MessageAttributesType.conversationId message) = getOurConversationId then
           (canEditMessages \<and> \<not> MessageAttributesType.deletedForEveryone message \<and>
            (case body message of None \<Rightarrow> False | Some b \<Rightarrow> b \<noteq> ''''))
         else False)"

section \<open>Predicates used in the statements\<close>

text \<open>\<open>firstMatch P xs k\<close>: \<open>k\<close> is the first index of \<open>xs\<close> whose element satisfies \<open>P\<close>.\<close>

definition firstMatch :: "('x \<Rightarrow> bool) \<Rightarrow> 'x list \<Rightarrow> nat \<Rightarrow> bool" where
  "firstMatch P xs k = (k < length xs \<and> P (xs ! k) \<and> (\<forall>j<k. \<not> P (xs ! j)))"

text \<open>A sequence of view-models sorted ascending by timestamp.\<close>

definition ascending :: "('a, 'r, 's) StoryDataType list \<Rightarrow> bool" where
  "ascending xs = sorted_wrt (\<lambda>a b. timestamp a \<le> timestamp b) xs"

text \<open>The store invariant of the data model: at most one view-model per \<open>messageId\<close>.\<close>

definition uniqueMessageIds :: "('a, 'r, 's, 'e, 'm) StoriesStateType \<Rightarrow> bool" where
  "uniqueMessageIds state = distinct (map messageId (stories state))"

text \<open>The actions a thunk dispatched, in order.\<close>

fun dispatched :: "('conv, 'msg, 'act, 'err) Effect list \<Rightarrow> 'act list" where
  "dispatched [] = []"
| "dispatched (Dispatch action # rest) = action # dispatched rest"
| "dispatched (_ # rest) = dispatched rest"

text \<open>The stores that the reducer can produce, starting from the empty one.\<close>

inductive reachable ::
  "('a AttachmentType_scheme option \<Rightarrow> bool) \<Rightarrow> ('a AttachmentType_scheme option \<Rightarrow> bool) \<Rightarrow>
   ('a, 'r, 's, 'e, 'm) StoriesStateType \<Rightarrow> bool"
  for isDownloaded isDownloading where
  initial: "reachable isDownloaded isDownloading getEmptyState"
| step: "reachable isDownloaded isDownloading state \<Longrightarrow>
         reachable isDownloaded isDownloading
           (nextState state (reducer isDownloaded isDownloading state action))"

text \<open>\<open>keepsRecipient story items cid\<close>: no view-model of \<open>items\<close> with the timestamp of
  \<open>story\<close> has \<open>cid\<close> among the keys of its send-state mapping.\<close>

definition keepsRecipient ::
  "('c, 'v) StoryViewType_scheme \<Rightarrow> ('a, 'r, 's) StoryDataType list \<Rightarrow> string \<Rightarrow> bool" where
  "keepsRecipient story items cid =
     (\<forall>item\<in>set items. timestamp item = StoryViewType.timestamp story \<longrightarrow>
        (case sendStateByConversationId item of None \<Rightarrow> True | Some obj \<Rightarrow> obj cid = None))"

section \<open>An instance of the attachment predicates, and example values\<close>

text \<open>
  Modelled from the spec: the download state of an attachment (ts/types/Attachment is not
  among the sources). The spec gives an attachment a download state that is one of
  not-downloaded, downloading and downloaded; its fourth value, unresolved-url, is a
  downloaded attachment whose \<open>url\<close> is still absent. \<open>isDownloaded\<close> and \<open>isDownloading\<close>
  read that state; an absent attachment is neither downloaded nor downloading.
\<close>

datatype DownloadState = NotDownloaded | Downloading | Downloaded

record StoryAttachment = AttachmentType +
  downloadState :: DownloadState

definition isDownloaded_model :: "StoryAttachment option \<Rightarrow> bool" where
  "isDownloaded_model attachment' =
     (case attachment' of None \<Rightarrow> False | Some a \<Rightarrow> downloadState a = Downloaded)"

definition isDownloading_model :: "StoryAttachment option \<Rightarrow> bool" where
  "isDownloading_model attachment' =
     (case attachment' of None \<Rightarrow> False | Some a \<Rightarrow> downloadState a = Downloading)"

type_synonym ExampleStory = "(unit StoryAttachment_ext, string, string) StoryDataType"
type_synonym ExampleMessage = "(string, string) MessageAttributesType"
type_synonym ExampleState =
  "(unit StoryAttachment_ext, string, string, string, unit) StoriesStateType"
type_synonym ExampleAction =
  "(unit StoryAttachment_ext, string, string, string, unit) StoriesActionType"
type_synonym ExampleRun = "(string, ExampleMessage, ExampleAction, string) ThunkRun"

definition exampleAttachment :: "DownloadState \<Rightarrow> StoryAttachment" where
  "exampleAttachment d = \<lparr>path = Some ''story.jpg'', url = None, downloadState = d\<rparr>"

definition exampleStory :: "string \<Rightarrow> int \<Rightarrow> ExampleStory" where
  "exampleStory i t =
     \<lparr>attachment = Some (exampleAttachment Downloaded), messageId = i, canReplyToStory = None,
      conversationId = ''conversation'', deletedForEveryone = False, reactions = None,
      readStatus = Some Unread, sendStateByConversationId = None, source = None,
      sourceUuid = None, storyDistributionListId = None, timestamp = t, type = ''story''\<rparr>"

definition exampleMessage :: "string \<Rightarrow> string option \<Rightarrow> string \<Rightarrow> ExampleMessage" where
  "exampleMessage i parent text =
     \<lparr>id' = i, storyId = parent, body = Some text, conversationId = ''conversation'',
      deletedForEveryone = False, editHistory = None, sendStateByConversationId = None,
      sent_at = 1000, source = None, sourceUuid = Some ''author''\<rparr>"

definition exampleState :: "ExampleStory list \<Rightarrow> ExampleState" where
  "exampleState ss = \<lparr>isShowingStoriesView = True, replyState = None, stories = ss\<rparr>"

definition exampleThread :: "ExampleState" where
  "exampleThread =
     \<lparr>isShowingStoriesView = True,
      replyState = Some \<lparr>ReplyState.messageId = ''A'',
        replies = [exampleMessage ''r1'' (Some ''A'') ''one'',
                   exampleMessage ''r2'' (Some ''A'') ''two'']\<rparr>,
      stories = [exampleStory ''A'' 1000]\<rparr>"

text \<open>A story whose attachment is being downloaded, alone in the store.\<close>

definition storyDownloading :: ExampleStory where
  "storyDownloading = (exampleStory ''A'' 1000)\<lparr>attachment := Some (exampleAttachment Downloading)\<rparr>"

definition stateDownloading :: ExampleState where
  "stateDownloading = exampleState [storyDownloading]"

text \<open>
  Story \<open>A\<close> was sent at time 1000 to \<open>X\<close> and \<open>Y\<close> through one distribution list, story
  \<open>B\<close> at the same time to \<open>Y\<close> through another. \<open>viewA\<close> is the view of \<open>A\<close> that the
  stories pane hands to \<open>deleteStoryForEveryone\<close>. Every conversation is known to the
  conversation controller.
\<close>

definition storyA :: ExampleStory where
  "storyA = (exampleStory ''A'' 1000)
     \<lparr>sendStateByConversationId := Some [''X'' \<mapsto> ''Sent'', ''Y'' \<mapsto> ''Sent''],
      storyDistributionListId := Some ''list-1''\<rparr>"

definition storyB :: ExampleStory where
  "storyB = (exampleStory ''B'' 1000)
     \<lparr>sendStateByConversationId := Some [''Y'' \<mapsto> ''Sent''],
      storyDistributionListId := Some ''list-2''\<rparr>"

definition viewA :: "unit StoryViewType" where
  "viewA = \<lparr>StoryViewType.messageId = ''A'',
            sendState = Some [\<lparr>recipient = \<lparr>ConversationType.id' = ''X''\<rparr>\<rparr>,
                              \<lparr>recipient = \<lparr>ConversationType.id' = ''Y''\<rparr>\<rparr>],
            StoryViewType.timestamp = 1000\<rparr>"

definition everyConversation :: "string \<Rightarrow> string option" where
  "everyConversation cid = Some cid"

text \<open>Collaborators of \<open>markStoryRead\<close> and \<open>reactToStory\<close>.\<close>

definition messageMissing :: "string \<Rightarrow> string + ExampleMessage option" where
  "messageMissing i = Inr None"

definition messageFound :: "string \<Rightarrow> string + ExampleMessage option" where
  "messageFound i = Inr (Some (exampleMessage i None ''''))"

definition storyReadSaved :: "StoryReadType \<Rightarrow> string option" where
  "storyReadSaved r = None"

definition enqueueFails :: "string \<Rightarrow> string \<Rightarrow> bool \<Rightarrow> string option" where
  "enqueueFails i emoji remove = Some ''offline''"

definition enqueueResolves :: "string \<Rightarrow> string \<Rightarrow> bool \<Rightarrow> string option" where
  "enqueueResolves i emoji remove = None"

section \<open>Lemmas about the library functions\<close>

lemmas example_defs = exampleState_def exampleStory_def exampleAttachment_def exampleMessage_def
  exampleThread_def storyDownloading_def stateDownloading_def isDownloaded_model_def
  isDownloading_model_def

lemma findIndex_None_iff: "findIndex P xs = None \<longleftrightarrow> (\<forall>x\<in>set xs. \<not> P x)"
  by (induction xs) auto

lemma findIndex_Some_firstMatch: "findIndex P xs = Some k \<Longrightarrow> firstMatch P xs k"
proof (induction xs arbitrary: k)
  case Nil
  then show ?case by simp
next
  case (Cons x xs)
  show ?case
  proof (cases "P x")
    case True
    with Cons.prems show ?thesis by (simp add: firstMatch_def)
  next
    case False
    with Cons.prems obtain k' where k': "findIndex P xs = Some k'" "k = Suc k'"
      by auto
    from Cons.IH[OF k'(1)] have fm: "firstMatch P xs k'" .
    show ?thesis
      unfolding firstMatch_def k'(2)
    proof (intro conjI allI impI)
      show "Suc k' < length (x # xs)" using fm by (simp add: firstMatch_def)
      show "P ((x # xs) ! Suc k')" using fm by (simp add: firstMatch_def)
      fix j assume "j < Suc k'"
      then show "\<not> P ((x # xs) ! j)"
        using fm False by (cases j) (auto simp: firstMatch_def)
    qed
  qed
qed

lemma firstMatch_unique: "firstMatch P xs k \<Longrightarrow> firstMatch P xs k' \<Longrightarrow> k = k'"
  unfolding firstMatch_def by (metis linorder_neqE_nat)

lemma firstMatch_findIndex: "firstMatch P xs k \<Longrightarrow> findIndex P xs = Some k"
proof -
  assume fm: "firstMatch P xs k"
  then have "\<exists>x\<in>set xs. P x" by (auto simp: firstMatch_def)
  then obtain k' where k': "findIndex P xs = Some k'"
    using findIndex_None_iff[of P xs] by (cases "findIndex P xs") auto
  from findIndex_Some_firstMatch[OF k'] fm have "k' = k" by (rule firstMatch_unique)
  with k' show ?thesis by simp
qed

lemma mset_sortInsert: "mset (sortInsert c a xs) = add_mset a (mset xs)"
  by (induction xs) auto

lemma mset_sortInto: "mset (sortInto c acc xs) = mset acc + mset xs"
  by (induction xs arbitrary: acc) (auto simp: mset_sortInsert)

lemma mset_Array_sort: "mset (Array_sort c xs) = mset xs"
  by (simp add: Array_sort_def mset_sortInto)

lemma set_sortInsert: "set (sortInsert c a xs) = insert a (set xs)"
  by (induction xs) auto

lemma ascending_sortInsert:
  "ascending xs \<Longrightarrow> ascending (sortInsert compareTimestamp a xs)"
  unfolding ascending_def
  by (induction xs) (auto simp: set_sortInsert compareTimestamp_def split: if_splits)

lemma ascending_sortInto:
  "ascending acc \<Longrightarrow> ascending (sortInto compareTimestamp acc xs)"
  by (induction xs arbitrary: acc) (auto simp: ascending_sortInsert)

lemma ascending_Array_sort: "ascending (Array_sort compareTimestamp xs)"
  unfolding Array_sort_def by (rule ascending_sortInto) (simp add: ascending_def)

lemma dispatched_append: "dispatched (xs @ ys) = dispatched xs @ dispatched ys"
  by (induction xs rule: dispatched.induct) simp_all

section \<open>The reducer keeps message ids unique\<close>

lemma map_messageId_update:
  assumes "k < length xs" "messageId v = messageId (xs ! k)"
  shows "map messageId (replaceIndex xs k v) = map messageId xs"
  using assms by (simp add: replaceIndex_def map_update list_update_same_conv)

lemma distinct_ids_Array_sort:
  assumes "distinct (map messageId xs)" "messageId p \<notin> messageId ` set xs"
  shows "distinct (map messageId (Array_sort c (xs @ [p])))"
proof -
  have "mset (map messageId (Array_sort c (xs @ [p]))) = mset (map messageId (p # xs))"
    by (simp add: mset_Array_sort)
  moreover have "distinct (map messageId (p # xs))"
    using assms by simp
  ultimately show ?thesis
    by (metis mset_eq_imp_distinct_iff)
qed

lemma unique_story_changed:
  assumes "uniqueMessageIds state"
  shows "uniqueMessageIds (nextState state (reducer dl dg state (STORY_CHANGED p)))"
proof (cases "findIndex (\<lambda>s. messageId s = messageId p) (stories state)")
  case None
  then have "messageId p \<notin> messageId ` set (stories state)"
    by (auto simp: findIndex_None_iff)
  with assms None show ?thesis
    by (simp add: uniqueMessageIds_def distinct_ids_Array_sort)
next
  case (Some k)
  from findIndex_Some_firstMatch[OF Some]
  have "k < length (stories state)" "messageId p = messageId (stories state ! k)"
    by (simp_all add: firstMatch_def)
  then have "map messageId (replaceIndex (stories state) k p) = map messageId (stories state)"
    by (rule map_messageId_update)
  with assms Some show ?thesis
    by (simp add: uniqueMessageIds_def Let_def)
qed

lemma unique_resolve:
  assumes "uniqueMessageIds state"
  shows "uniqueMessageIds (nextState state (reducer dl dg state (RESOLVE_ATTACHMENT_URL i u)))"
proof (cases "findIndex (\<lambda>s. messageId s = i) (stories state)")
  case None
  with assms show ?thesis by simp
next
  case (Some k)
  from findIndex_Some_firstMatch[OF Some]
  have k: "k < length (stories state)" by (simp add: firstMatch_def)
  show ?thesis
  proof (cases "attachment (stories state ! k)")
    case None
    with assms Some show ?thesis by simp
  next
    case (Some a)
    have "map messageId (replaceIndex (stories state) k
            ((stories state ! k)\<lparr>attachment := Some (a\<lparr>url := Some u\<rparr>)\<rparr>)) =
          map messageId (stories state)"
      using k by (intro map_messageId_update) simp_all
    with assms \<open>findIndex _ _ = Some k\<close> Some show ?thesis
      by (simp add: uniqueMessageIds_def Let_def)
  qed
qed

lemma unique_doe:
  assumes "uniqueMessageIds state"
  shows "uniqueMessageIds (nextState state (reducer dl dg state (DOE_STORY i)))"
proof (cases "findIndex (\<lambda>s. messageId s = i) (stories state)")
  case None
  with assms show ?thesis by simp
next
  case (Some k)
  from findIndex_Some_firstMatch[OF Some]
  have k: "k < length (stories state)" by (simp add: firstMatch_def)
  have "map messageId (replaceIndex (stories state) k
          ((stories state ! k)\<lparr>deletedForEveryone := True\<rparr>)) = map messageId (stories state)"
    using k by (intro map_messageId_update) simp_all
  with assms Some show ?thesis
    by (simp add: uniqueMessageIds_def)
qed

lemma unique_mark_read:
  assumes "uniqueMessageIds state"
  shows "uniqueMessageIds (nextState state (reducer dl dg state (MARK_STORY_READ i)))"
proof -
  have "messageId \<circ> (\<lambda>story::('a, 'b, 'c) StoryDataType. if messageId story = i
          then story\<lparr>readStatus := Some Viewed\<rparr> else story) = messageId"
    by (rule ext) simp
  with assms show ?thesis
    by (simp add: uniqueMessageIds_def)
qed

lemma unique_deleted:
  assumes "uniqueMessageIds state"
  shows "uniqueMessageIds (nextState state (reducer dl dg state (MESSAGE_DELETED i)))"
  using assms by (simp add: uniqueMessageIds_def Let_def distinct_map_filter)

lemma unique_message_changed:
  assumes "uniqueMessageIds state"
  shows "uniqueMessageIds (nextState state (reducer dl dg state (MESSAGE_CHANGED i d)))"
  using assms by (simp add: uniqueMessageIds_def split: option.splits)

lemma unique_reply:
  assumes "uniqueMessageIds state"
  shows "uniqueMessageIds (nextState state (reducer dl dg state (REPLY_TO_STORY d)))"
  using assms by (simp add: uniqueMessageIds_def split: option.splits)

lemma uniqueMessageIds_step:
  assumes "uniqueMessageIds state"
  shows "uniqueMessageIds (nextState state (reducer isDownloaded isDownloading state action))"
proof (cases action)
  case (DOE_STORY i)
  with assms show ?thesis by (simp only: unique_doe)
next
  case (LOAD_STORY_REPLIES i rs)
  with assms show ?thesis by (simp add: uniqueMessageIds_def)
next
  case (MARK_STORY_READ i)
  with assms show ?thesis by (simp only: unique_mark_read)
next
  case (MESSAGE_CHANGED i d)
  with assms show ?thesis by (simp only: unique_message_changed)
next
  case (MESSAGE_DELETED i)
  with assms show ?thesis by (simp only: unique_deleted)
next
  case (REPLY_TO_STORY d)
  with assms show ?thesis by (simp only: unique_reply)
next
  case (RESOLVE_ATTACHMENT_URL i u)
  with assms show ?thesis by (simp only: unique_resolve)
next
  case (STORY_CHANGED p)
  with assms show ?thesis by (simp only: unique_story_changed)
next
  case TOGGLE_VIEW
  with assms show ?thesis by (simp add: uniqueMessageIds_def)
next
  case NOOP
  with assms show ?thesis by simp
qed

lemma reachable_uniqueMessageIds:
  "reachable isDownloaded isDownloading state \<Longrightarrow> uniqueMessageIds state"
proof (induction rule: reachable.induct)
  case initial
  show ?case by (simp add: uniqueMessageIds_def getEmptyState_def)
next
  case (step state action)
  then show ?case by (simp add: uniqueMessageIds_step)
qed

lemma filter_unique_id:
  assumes "distinct (map messageId (pre @ x # post))"
  shows "filter (\<lambda>s. messageId s \<noteq> messageId x) (pre @ x # post) = pre @ post"
proof -
  have "\<forall>s\<in>set pre \<union> set post. messageId s \<noteq> messageId x"
    using assms by (auto simp: image_iff)
  then show ?thesis by simp
qed

section \<open>What deleteStoryForEveryone sends\<close>

text \<open>
  The loop over the stories of the store removes from the recipients every key of the
  send-state mapping of every view-model with the timestamp of the deleted story. It
  tests neither the distribution list nor whether the view-model is the deleted story
  itself.
\<close>

lemma foldl_forEachStory:
  "foldl (forEachStory story) conversationIds items =
     filter (keepsRecipient story items) conversationIds"
proof (induction items arbitrary: conversationIds)
  case Nil
  show ?case by (simp add: keepsRecipient_def)
next
  case (Cons item items)
  have "filter (keepsRecipient story items) (forEachStory story conversationIds item) =
        filter (keepsRecipient story (item # items)) conversationIds"
    by (auto simp: forEachStory_def deleteKeys_def keepsRecipient_def
        split: option.splits intro!: filter_cong)
  with Cons.IH show ?case by simp
qed

lemma set_new_Set: "set (new_Set xs) = set xs"
  by (simp add: new_Set_def)

lemma deleteStoryForEveryone_sends:
  assumes "sendState story = Some story_sendState"
  shows "SendDeleteForEveryoneMessage conversation d i t \<in>
           set (effects (deleteStoryForEveryone ConversationController_get state story)) \<longleftrightarrow>
         d = DAY \<and> i = StoryViewType.messageId story \<and> t = StoryViewType.timestamp story \<and>
         (\<exists>s\<in>set story_sendState.
            keepsRecipient story (stories state) (ConversationType.id' (recipient s)) \<and>
            ConversationController_get (ConversationType.id' (recipient s)) = Some conversation)"
  using assms
  by (auto simp: deleteStoryForEveryone_def Let_def foldl_forEachStory set_new_Set
      split: option.splits)

lemma deleteStoryForEveryone_own_story_in_store:
  assumes "sendState story = Some story_sendState"
    and "item \<in> set (stories state)"
    and "timestamp item = StoryViewType.timestamp story"
    and "sendStateByConversationId item = Some obj"
    and "\<forall>s\<in>set story_sendState. obj (ConversationType.id' (recipient s)) \<noteq> None"
  shows "effects (deleteStoryForEveryone ConversationController_get state story) =
           [Dispatch (DOE_STORY (StoryViewType.messageId story))]"
proof -
  have "\<forall>cid\<in>set (new_Set (map (\<lambda>s. ConversationType.id' (recipient s)) story_sendState)).
          \<not> keepsRecipient story (stories state) cid"
    using assms(2-5) by (auto simp: set_new_Set keepsRecipient_def intro!: bexI[of _ item])
  then have "filter (keepsRecipient story (stories state))
      (new_Set (map (\<lambda>s. ConversationType.id' (recipient s)) story_sendState)) = []"
    by (simp add: filter_empty_conv)
  with assms(1) show ?thesis
    by (simp add: deleteStoryForEveryone_def foldl_forEachStory)
qed

lemma deleteStoryForEveryone_other_list_only:
  "effects (deleteStoryForEveryone everyConversation (exampleState [storyB]) viewA :: ExampleRun)
     = [SendDeleteForEveryoneMessage ''X'' DAY ''A'' 1000, Dispatch (DOE_STORY ''A'')]"
  by (simp add: deleteStoryForEveryone_def everyConversation_def exampleState_def
      storyB_def viewA_def exampleStory_def new_Set_def forEachStory_def deleteKeys_def)

section \<open>The branches of markStoryRead\<close>

lemma markStoryRead_branches:
  "(find (\<lambda>story. messageId story = i) (stories state) = None \<longrightarrow>
      markStoryRead isDownloaded getMessageById now primary addNewStoryRead state i =
        \<lparr>effects = [Log_warn (''markStoryRead: no matching story found: '' @ i)], rejected = None\<rparr>) \<and>
   (\<forall>story. find (\<lambda>story. messageId story = i) (stories state) = Some story \<and>
        (\<not> isDownloaded (attachment story) \<or> readStatus story \<noteq> Some Unread) \<longrightarrow>
      markStoryRead isDownloaded getMessageById now primary addNewStoryRead state i =
        \<lparr>effects = [], rejected = None\<rparr>) \<and>
   (\<forall>story. find (\<lambda>story. messageId story = i) (stories state) = Some story \<and>
        isDownloaded (attachment story) \<and> readStatus story = Some Unread \<and>
        getMessageById i = Inr None \<longrightarrow>
      markStoryRead isDownloaded getMessageById now primary addNewStoryRead state i =
        \<lparr>effects = [], rejected = None\<rparr>) \<and>
   (\<forall>story message. find (\<lambda>story. messageId story = i) (stories state) = Some story \<and>
        isDownloaded (attachment story) \<and> readStatus story = Some Unread \<and>
        getMessageById i = Inr (Some message) \<and>
        addNewStoryRead (StoryReadType (MessageAttributesType.sourceUuid message)
          (MessageAttributesType.conversationId message) i now) = None \<longrightarrow>
      markStoryRead isDownloaded getMessageById now primary addNewStoryRead state i =
        \<lparr>effects =
           [MarkViewed message now] @
           (if primary then []
            else [ViewSyncJobQueue_add [SyncType i (MessageAttributesType.source message)
                    (MessageAttributesType.sourceUuid message) (sent_at message)]]) @
           [ViewedReceiptsJobQueue_add (SyncType i (MessageAttributesType.source message)
              (MessageAttributesType.sourceUuid message) (sent_at message)),
            AddNewStoryRead (StoryReadType (MessageAttributesType.sourceUuid message)
              (MessageAttributesType.conversationId message) i now),
            Dispatch (MARK_STORY_READ i)],
         rejected = None\<rparr>)"
  by (auto simp: markStoryRead_def Let_def)

lemma markStoryRead_dispatches_only_if:
  "dispatched (effects (markStoryRead isDownloaded getMessageById now primary addNewStoryRead state i))
      \<noteq> [] \<longrightarrow>
   (\<exists>story message. find (\<lambda>story. messageId story = i) (stories state) = Some story \<and>
      isDownloaded (attachment story) \<and> readStatus story = Some Unread \<and>
      getMessageById i = Inr (Some message))"
  by (auto simp: markStoryRead_def Let_def dispatched_append split: option.splits sum.splits if_splits)

section \<open>The claims\<close>

subsection \<open>C1: STORY_CHANGED for a view-model that is already in the store\<close>

text \<open>
  Claim C1 says that a \<open>STORY_CHANGED\<close> action whose \<open>messageId\<close> matches a stored
  view-model returns the identical store when the relevant fields are unchanged, and
  replaces the view-model exactly when the attachment went into "downloading", or went
  from not downloaded to downloaded, or the deletion flag went from false to true, or the
  send-state mapping, the read status or the number of reactions changed.

  The first of these conditions is not a transition in the code: \<open>isDownloadingAttachment\<close>
  is \<open>isDownloading(newStory.attachment)\<close> and does not look at the stored view-model.
  A payload equal to the stored view-model in every field, whose attachment is being
  downloaded, is therefore not a no-op: the reducer builds a new store.
\<close>

theorem story_changed_unchanged_fields_counterexample:
  "stories stateDownloading = [storyDownloading] \<and>
   reducer isDownloaded_model isDownloading_model stateDownloading (STORY_CHANGED storyDownloading)
     = NewObj stateDownloading \<and>
   reducer isDownloaded_model isDownloading_model stateDownloading (STORY_CHANGED storyDownloading)
     \<noteq> SameRef"
  by (simp add: example_defs replaceIndex_def)

text \<open>
  C1 as amended: let \<open>k\<close> be the first index whose view-model has the \<open>messageId\<close> of the
  payload and \<open>prev\<close> the view-model stored there. The reducer replaces the element at
  \<open>k\<close> by the payload, in a new store, exactly when the attachment of the payload is
  being downloaded (whatever the stored one was), or the stored attachment is not
  downloaded and that of the payload is, or the deletion flag went from false to true,
  or the send-state mappings differ, or the read statuses differ, or the numbers of
  reactions differ; otherwise it returns the identical store. In particular a payload with
  unchanged relevant fields whose attachment is not being downloaded is a no-op by
  identity.
\<close>

theorem story_changed_existing_replaces_iff:
  assumes "firstMatch (\<lambda>s. messageId s = messageId new) (stories state) k"
    and "prev = stories state ! k"
  shows "reducer isDownloaded isDownloading state (STORY_CHANGED new) =
     (if isDownloading (attachment new) \<or>
         (\<not> isDownloaded (attachment prev) \<and> isDownloaded (attachment new)) \<or>
         (\<not> deletedForEveryone prev \<and> deletedForEveryone new) \<or>
         sendStateByConversationId prev \<noteq> sendStateByConversationId new \<or>
         readStatus prev \<noteq> readStatus new \<or>
         map_option length (reactions prev) \<noteq> map_option length (reactions new)
      then NewObj (state\<lparr>stories := (stories state)[k := new]\<rparr>)
      else SameRef)"
proof -
  from assms(1) have "findIndex (\<lambda>s. messageId s = messageId new) (stories state) = Some k"
    by (rule firstMatch_findIndex)
  then show ?thesis
    using assms(2) by (simp add: Let_def replaceIndex_def)
qed

theorem story_changed_existing_replaces_iff_witness:
  "firstMatch (\<lambda>s. messageId s = ''B'') (stories (exampleState [exampleStory ''A'' 1, exampleStory ''B'' 2])) 1 \<and>
   reducer isDownloaded_model isDownloading_model
     (exampleState [exampleStory ''A'' 1, exampleStory ''B'' 2])
     (STORY_CHANGED ((exampleStory ''B'' 7)\<lparr>source := Some ''+1''\<rparr>)) = SameRef \<and>
   reducer isDownloaded_model isDownloading_model
     (exampleState [exampleStory ''A'' 1, exampleStory ''B'' 2])
     (STORY_CHANGED ((exampleStory ''B'' 2)\<lparr>readStatus := Some Viewed\<rparr>)) =
       NewObj (exampleState [exampleStory ''A'' 1, (exampleStory ''B'' 2)\<lparr>readStatus := Some Viewed\<rparr>])"
proof -
  let ?st = "exampleState [exampleStory ''A'' 1, exampleStory ''B'' 2]"
  have fm: "firstMatch (\<lambda>s. messageId s = ''B'') (stories ?st) 1"
    by (simp add: firstMatch_def example_defs)
  have fm1: "firstMatch (\<lambda>s. messageId s = messageId ((exampleStory ''B'' 7)\<lparr>source := Some ''+1''\<rparr>)) (stories ?st) 1"
    using fm by (simp add: exampleStory_def)
  have fm2: "firstMatch (\<lambda>s. messageId s = messageId ((exampleStory ''B'' 2)\<lparr>readStatus := Some Viewed\<rparr>)) (stories ?st) 1"
    using fm by (simp add: exampleStory_def)
  from story_changed_existing_replaces_iff[OF fm1 refl, of isDownloaded_model isDownloading_model]
  have a: "reducer isDownloaded_model isDownloading_model ?st
     (STORY_CHANGED ((exampleStory ''B'' 7)\<lparr>source := Some ''+1''\<rparr>)) = SameRef"
    by (simp add: example_defs)
  from story_changed_existing_replaces_iff[OF fm2 refl, of isDownloaded_model isDownloading_model]
  have b: "reducer isDownloaded_model isDownloading_model ?st
     (STORY_CHANGED ((exampleStory ''B'' 2)\<lparr>readStatus := Some Viewed\<rparr>)) =
       NewObj (exampleState [exampleStory ''A'' 1, (exampleStory ''B'' 2)\<lparr>readStatus := Some Viewed\<rparr>])"
    by (simp add: example_defs)
  from fm a b show ?thesis by blast
qed

subsection \<open>C2: deleteStoryForEveryone\<close>

text \<open>
  Claim C2 says that \<open>deleteStoryForEveryone\<close> sends the retraction to the recipients of
  the deleted story, except those who received a story with the same timestamp through a
  different distribution list: with story \<open>A\<close> sent to \<open>X\<close> and \<open>Y\<close>, and a second story
  \<open>B\<close> of the same timestamp sent to \<open>Y\<close> through another list, only \<open>X\<close> is sent the
  retraction.

  The code evaluated on that input, with \<open>A\<close> and \<open>B\<close> both in the store: the loop also
  visits \<open>A\<close> itself, whose send-state mapping has the keys \<open>X\<close> and \<open>Y\<close>, so every
  recipient is removed and no retraction is sent; only \<open>DOE_STORY\<close> is dispatched.
\<close>

theorem deleteStoryForEveryone_skips_own_recipients:
  "effects (deleteStoryForEveryone everyConversation (exampleState [storyA, storyB]) viewA :: ExampleRun)
     = [Dispatch (DOE_STORY ''A'')]"
  by (simp add: deleteStoryForEveryone_def everyConversation_def exampleState_def storyA_def
      storyB_def viewA_def exampleStory_def new_Set_def forEachStory_def deleteKeys_def)

subsection \<open>C3: STORY_CHANGED for a new view-model\<close>

text \<open>
  Claim C3: for every store and every \<open>STORY_CHANGED\<close> action whose \<open>messageId\<close> is not in
  the stories list, the stories of the resulting store are sorted ascending by timestamp.
  The resulting store is a new object, and its stories are those of the old store and the
  payload.
\<close>

theorem story_changed_new_sorted:
  assumes "messageId p \<notin> messageId ` set (stories state)"
  shows "\<exists>s'. reducer isDownloaded isDownloading state (STORY_CHANGED p) = NewObj s' \<and>
           ascending (stories s') \<and>
           mset (stories s') = add_mset p (mset (stories state))"
proof -
  have "\<forall>x\<in>set (stories state). messageId x \<noteq> messageId p"
    using assms by (metis imageI)
  then have "findIndex (\<lambda>existingStory. messageId existingStory = messageId p) (stories state) = None"
    by (simp add: findIndex_None_iff)
  then show ?thesis
    by (simp add: ascending_Array_sort mset_Array_sort)
qed

theorem story_changed_new_sorted_witness:
  "messageId (exampleStory ''C'' 20) \<notin>
     messageId ` set (stories (exampleState [exampleStory ''A'' 30, exampleStory ''B'' 10])) \<and>
   reducer isDownloaded_model isDownloading_model
     (exampleState [exampleStory ''A'' 30, exampleStory ''B'' 10])
     (STORY_CHANGED (exampleStory ''C'' 20)) =
       NewObj (exampleState [exampleStory ''B'' 10, exampleStory ''C'' 20, exampleStory ''A'' 30]) \<and>
   ascending [exampleStory ''B'' 10, exampleStory ''C'' 20, exampleStory ''A'' 30]"
proof -
  let ?st = "exampleState [exampleStory ''A'' 30, exampleStory ''B'' 10]"
  have h: "messageId (exampleStory ''C'' 20) \<notin> messageId ` set (stories ?st)"
    by (simp add: example_defs)
  have r: "reducer isDownloaded_model isDownloading_model ?st (STORY_CHANGED (exampleStory ''C'' 20)) =
       NewObj (exampleState [exampleStory ''B'' 10, exampleStory ''C'' 20, exampleStory ''A'' 30])"
    by (simp add: example_defs Array_sort_def compareTimestamp_def)
  from story_changed_new_sorted[OF h, of isDownloaded_model isDownloading_model] r
  have "ascending [exampleStory ''B'' 10, exampleStory ''C'' 20, exampleStory ''A'' 30]"
    by (simp add: exampleState_def)
  with h r show ?thesis by blast
qed

subsection \<open>C4: at most one view-model per messageId\<close>

text \<open>
  Claim C4: for every action, if no two view-models of the store have the same
  \<open>messageId\<close>, then no two view-models of the store after the reducer's transition do.
\<close>

theorem reducer_preserves_uniqueMessageIds:
  assumes "uniqueMessageIds state"
  shows "uniqueMessageIds (nextState state (reducer isDownloaded isDownloading state action))"
  using assms by (rule uniqueMessageIds_step)

theorem reducer_preserves_uniqueMessageIds_witness:
  "uniqueMessageIds (exampleState [exampleStory ''A'' 30, exampleStory ''B'' 10]) \<and>
   uniqueMessageIds (nextState (exampleState [exampleStory ''A'' 30, exampleStory ''B'' 10])
     (reducer isDownloaded_model isDownloading_model
        (exampleState [exampleStory ''A'' 30, exampleStory ''B'' 10])
        (STORY_CHANGED (exampleStory ''C'' 20))))"
proof -
  have h: "uniqueMessageIds (exampleState [exampleStory ''A'' 30, exampleStory ''B'' 10])"
    by (simp add: uniqueMessageIds_def example_defs)
  from reducer_preserves_uniqueMessageIds[OF h] h show ?thesis by blast
qed

subsection \<open>C5: markStoryRead\<close>

text \<open>
  Claim C5 says that \<open>markStoryRead\<close> is guarded by three preconditions (a view-model with
  the \<open>messageId\<close> is in the store, its attachment is downloaded, its read status is
  unread), that it is a silent no-op when one of them fails, and that whenever the three
  hold it performs its success path and then dispatches \<open>MARK_STORY_READ\<close>.

  The code has a fourth guard: after the three, it looks the message up with
  \<open>getMessageById\<close> and returns when there is none. With a downloaded, unread story in
  the store and no message under its id, nothing is done and nothing is dispatched.
\<close>

theorem markStoryRead_message_missing_counterexample:
  "find (\<lambda>story. messageId story = ''A'') (stories (exampleState [exampleStory ''A'' 1000]))
     = Some (exampleStory ''A'' 1000) \<and>
   isDownloaded_model (attachment (exampleStory ''A'' 1000)) \<and>
   readStatus (exampleStory ''A'' 1000) = Some Unread \<and>
   (markStoryRead isDownloaded_model messageMissing 2000 True storyReadSaved
      (exampleState [exampleStory ''A'' 1000]) ''A'' :: ExampleRun) = \<lparr>effects = [], rejected = None\<rparr>"
  by (simp add: markStoryRead_def messageMissing_def example_defs)

text \<open>
  C5 as amended: when no view-model matches, \<open>markStoryRead\<close> logs a warning and does
  nothing else; when the matching view-model's attachment is not downloaded or its read
  status is not unread, it does nothing; when the three preconditions hold and
  \<open>getMessageById\<close> finds no message, it does nothing; when the three hold, the message
  is found and the read record is stored, it marks the message viewed, adds a
  view-sync job only if this is not the primary device, adds a viewed-receipt job, stores
  the read record and then dispatches \<open>MARK_STORY_READ\<close>. Whenever it dispatches, the
  three preconditions held and the message was found; in particular there is no dispatch
  for an unread story whose attachment is not downloaded.
\<close>

theorem markStoryRead_guards:
  "(find (\<lambda>story. messageId story = i) (stories state) = None \<longrightarrow>
      markStoryRead isDownloaded getMessageById now primary addNewStoryRead state i =
        \<lparr>effects = [Log_warn (''markStoryRead: no matching story found: '' @ i)], rejected = None\<rparr>) \<and>
   (\<forall>story. find (\<lambda>story. messageId story = i) (stories state) = Some story \<and>
        (\<not> isDownloaded (attachment story) \<or> readStatus story \<noteq> Some Unread) \<longrightarrow>
      markStoryRead isDownloaded getMessageById now primary addNewStoryRead state i =
        \<lparr>effects = [], rejected = None\<rparr>) \<and>
   (\<forall>story. find (\<lambda>story. messageId story = i) (stories state) = Some story \<and>
        isDownloaded (attachment story) \<and> readStatus story = Some Unread \<and>
        getMessageById i = Inr None \<longrightarrow>
      markStoryRead isDownloaded getMessageById now primary addNewStoryRead state i =
        \<lparr>effects = [], rejected = None\<rparr>) \<and>
   (\<forall>story message. find (\<lambda>story. messageId story = i) (stories state) = Some story \<and>
        isDownloaded (attachment story) \<and> readStatus story = Some Unread \<and>
        getMessageById i = Inr (Some message) \<and>
        addNewStoryRead (StoryReadType (MessageAttributesType.sourceUuid message)
          (MessageAttributesType.conversationId message) i now) = None \<longrightarrow>
      markStoryRead isDownloaded getMessageById now primary addNewStoryRead state i =
        \<lparr>effects =
           [MarkViewed message now] @
           (if primary then []
            else [ViewSyncJobQueue_add [SyncType i (MessageAttributesType.source message)
                    (MessageAttributesType.sourceUuid message) (sent_at message)]]) @
           [ViewedReceiptsJobQueue_add (SyncType i (MessageAttributesType.source message)
              (MessageAttributesType.sourceUuid message) (sent_at message)),
            AddNewStoryRead (StoryReadType (MessageAttributesType.sourceUuid message)
              (MessageAttributesType.conversationId message) i now),
            Dispatch (MARK_STORY_READ i)],
         rejected = None\<rparr>) \<and>
   (dispatched (effects (markStoryRead isDownloaded getMessageById now primary addNewStoryRead state i))
      \<noteq> [] \<longrightarrow>
    (\<exists>story message. find (\<lambda>story. messageId story = i) (stories state) = Some story \<and>
       isDownloaded (attachment story) \<and> readStatus story = Some Unread \<and>
       getMessageById i = Inr (Some message)))"
proof -
  note b = markStoryRead_branches[of i state isDownloaded getMessageById now primary addNewStoryRead]
  show ?thesis
    apply (intro conjI)
        apply (rule b[THEN conjunct1])
       apply (rule b[THEN conjunct2, THEN conjunct1])
      apply (rule b[THEN conjunct2, THEN conjunct2, THEN conjunct1])
     apply (rule b[THEN conjunct2, THEN conjunct2, THEN conjunct2])
    apply (rule markStoryRead_dispatches_only_if)
    done
qed

theorem markStoryRead_guards_witness:
  "(markStoryRead isDownloaded_model messageFound 2000 False storyReadSaved
      (exampleState [exampleStory ''A'' 1000]) ''A'' :: ExampleRun) =
     \<lparr>effects =
        [MarkViewed (exampleMessage ''A'' None '''') 2000,
         ViewSyncJobQueue_add [SyncType ''A'' None (Some ''author'') 1000],
         ViewedReceiptsJobQueue_add (SyncType ''A'' None (Some ''author'') 1000),
         AddNewStoryRead (StoryReadType (Some ''author'') ''conversation'' ''A'' 2000),
         Dispatch (MARK_STORY_READ ''A'')],
      rejected = None\<rparr> \<and>
   (markStoryRead isDownloaded_model messageFound 2000 False storyReadSaved
      (exampleState [(exampleStory ''A'' 1000)\<lparr>attachment := Some (exampleAttachment NotDownloaded)\<rparr>])
      ''A'' :: ExampleRun) = \<lparr>effects = [], rejected = None\<rparr> \<and>
   (markStoryRead isDownloaded_model messageMissing 2000 False storyReadSaved
      (exampleState [exampleStory ''A'' 1000]) ''A'' :: ExampleRun) = \<lparr>effects = [], rejected = None\<rparr> \<and>
   (markStoryRead isDownloaded_model messageFound 2000 False storyReadSaved
      (exampleState [exampleStory ''A'' 1000]) ''B'' :: ExampleRun) =
     \<lparr>effects = [Log_warn ''markStoryRead: no matching story found: B''], rejected = None\<rparr> \<and>
   (\<exists>story message.
      find (\<lambda>story. messageId story = ''A'') (stories (exampleState [exampleStory ''A'' 1000]))
        = Some story \<and>
      isDownloaded_model (attachment story) \<and> readStatus story = Some Unread \<and>
      messageFound ''A'' = Inr (Some message))"
proof -
  let ?st = "exampleState [exampleStory ''A'' 1000]"
  let ?pending = "exampleState
    [(exampleStory ''A'' 1000)\<lparr>attachment := Some (exampleAttachment NotDownloaded)\<rparr>]"
  have found: "find (\<lambda>story. messageId story = ''A'') (stories ?st) = Some (exampleStory ''A'' 1000) \<and>
      isDownloaded_model (attachment (exampleStory ''A'' 1000)) \<and>
      readStatus (exampleStory ''A'' 1000) = Some Unread \<and>
      messageFound ''A'' = Inr (Some (exampleMessage ''A'' None '''')) \<and>
      storyReadSaved (StoryReadType
        (MessageAttributesType.sourceUuid (exampleMessage ''A'' None ''''))
        (MessageAttributesType.conversationId (exampleMessage ''A'' None '''')) ''A'' 2000) = None"
    by (simp add: example_defs messageFound_def storyReadSaved_def)
  with markStoryRead_guards[of "''A''" ?st isDownloaded_model messageFound 2000 False storyReadSaved]
  have "(markStoryRead isDownloaded_model messageFound 2000 False storyReadSaved ?st ''A'' :: ExampleRun) =
     \<lparr>effects =
           [MarkViewed (exampleMessage ''A'' None '''') 2000] @
           (if False then []
            else [ViewSyncJobQueue_add [SyncType ''A'' (MessageAttributesType.source (exampleMessage ''A'' None ''''))
                    (MessageAttributesType.sourceUuid (exampleMessage ''A'' None '''')) (sent_at (exampleMessage ''A'' None ''''))]]) @
           [ViewedReceiptsJobQueue_add (SyncType ''A'' (MessageAttributesType.source (exampleMessage ''A'' None ''''))
              (MessageAttributesType.sourceUuid (exampleMessage ''A'' None '''')) (sent_at (exampleMessage ''A'' None ''''))),
            AddNewStoryRead (StoryReadType (MessageAttributesType.sourceUuid (exampleMessage ''A'' None ''''))
              (MessageAttributesType.conversationId (exampleMessage ''A'' None '''')) ''A'' 2000),
            Dispatch (MARK_STORY_READ ''A'')],
         rejected = None\<rparr>"
    by blast
  then have a: "(markStoryRead isDownloaded_model messageFound 2000 False storyReadSaved ?st ''A'' :: ExampleRun) =
     \<lparr>effects =
        [MarkViewed (exampleMessage ''A'' None '''') 2000,
         ViewSyncJobQueue_add [SyncType ''A'' None (Some ''author'') 1000],
         ViewedReceiptsJobQueue_add (SyncType ''A'' None (Some ''author'') 1000),
         AddNewStoryRead (StoryReadType (Some ''author'') ''conversation'' ''A'' 2000),
         Dispatch (MARK_STORY_READ ''A'')],
      rejected = None\<rparr>"
    by (simp add: exampleMessage_def)
  have "find (\<lambda>story. messageId story = ''A'') (stories ?pending) =
          Some ((exampleStory ''A'' 1000)\<lparr>attachment := Some (exampleAttachment NotDownloaded)\<rparr>) \<and>
        (\<not> isDownloaded_model (attachment
            ((exampleStory ''A'' 1000)\<lparr>attachment := Some (exampleAttachment NotDownloaded)\<rparr>)) \<or>
         readStatus ((exampleStory ''A'' 1000)\<lparr>attachment := Some (exampleAttachment NotDownloaded)\<rparr>)
           \<noteq> Some Unread)"
    by (simp add: example_defs)
  with markStoryRead_guards[of "''A''" ?pending isDownloaded_model messageFound 2000 False storyReadSaved]
  have b: "(markStoryRead isDownloaded_model messageFound 2000 False storyReadSaved ?pending ''A''
      :: ExampleRun) = \<lparr>effects = [], rejected = None\<rparr>"
    by blast
  have "find (\<lambda>story. messageId story = ''A'') (stories ?st) = Some (exampleStory ''A'' 1000) \<and>
      isDownloaded_model (attachment (exampleStory ''A'' 1000)) \<and>
      readStatus (exampleStory ''A'' 1000) = Some Unread \<and>
      messageMissing ''A'' = Inr None"
    by (simp add: example_defs messageMissing_def)
  with markStoryRead_guards[of "''A''" ?st isDownloaded_model messageMissing 2000 False storyReadSaved]
  have c: "(markStoryRead isDownloaded_model messageMissing 2000 False storyReadSaved ?st ''A''
      :: ExampleRun) = \<lparr>effects = [], rejected = None\<rparr>"
    by blast
  have "find (\<lambda>story. messageId story = ''B'') (stories ?st) = None"
    by (simp add: example_defs)
  with markStoryRead_guards[of "''B''" ?st isDownloaded_model messageFound 2000 False storyReadSaved]
  have "(markStoryRead isDownloaded_model messageFound 2000 False storyReadSaved ?st ''B''
      :: ExampleRun) =
     \<lparr>effects = [Log_warn (''markStoryRead: no matching story found: '' @ ''B'')], rejected = None\<rparr>"
    by blast
  then have d: "(markStoryRead isDownloaded_model messageFound 2000 False storyReadSaved ?st ''B''
      :: ExampleRun) =
     \<lparr>effects = [Log_warn ''markStoryRead: no matching story found: B''], rejected = None\<rparr>"
    by simp
  have "dispatched (effects (markStoryRead isDownloaded_model messageFound 2000 False storyReadSaved
      ?st ''A'' :: ExampleRun)) \<noteq> []"
    by (simp add: a)
  with markStoryRead_guards[of "''A''" ?st isDownloaded_model messageFound 2000 False storyReadSaved]
  have e: "\<exists>story message.
      find (\<lambda>story. messageId story = ''A'') (stories ?st) = Some story \<and>
      isDownloaded_model (attachment story) \<and> readStatus story = Some Unread \<and>
      messageFound ''A'' = Inr (Some message)"
    by blast
  from a b c d e show ?thesis by blast
qed

subsection \<open>C6: MESSAGE_CHANGED and the reply thread\<close>

text \<open>
  Claim C6: a \<open>MESSAGE_CHANGED\<close> action applies only when a reply thread is active and its
  \<open>messageId\<close> is the \<open>storyId\<close> of the incoming reply. Then, if no reply of the thread
  has the id of the action, the reply is appended at the end; otherwise the first reply
  with that id is replaced in place. With no active thread, or another \<open>storyId\<close>, the
  reducer returns the identical store.
\<close>

theorem message_changed_updates_reply_thread:
  "(replyState state = None \<longrightarrow>
      reducer isDownloaded isDownloading state (MESSAGE_CHANGED i d) = SameRef) \<and>
   (\<forall>thread. replyState state = Some thread \<and> storyId d \<noteq> Some (ReplyState.messageId thread) \<longrightarrow>
      reducer isDownloaded isDownloading state (MESSAGE_CHANGED i d) = SameRef) \<and>
   (\<forall>thread. replyState state = Some thread \<and> storyId d = Some (ReplyState.messageId thread) \<and>
      (\<forall>reply\<in>set (replies thread). id' reply \<noteq> i) \<longrightarrow>
      reducer isDownloaded isDownloading state (MESSAGE_CHANGED i d) =
        NewObj (state\<lparr>replyState := Some (thread\<lparr>replies := replies thread @ [d]\<rparr>)\<rparr>)) \<and>
   (\<forall>thread k. replyState state = Some thread \<and> storyId d = Some (ReplyState.messageId thread) \<and>
      firstMatch (\<lambda>reply. id' reply = i) (replies thread) k \<longrightarrow>
      reducer isDownloaded isDownloading state (MESSAGE_CHANGED i d) =
        NewObj (state\<lparr>replyState := Some (thread\<lparr>replies := (replies thread)[k := d]\<rparr>)\<rparr>))"
proof (intro conjI allI impI)
  assume "replyState state = None"
  then show "reducer isDownloaded isDownloading state (MESSAGE_CHANGED i d) = SameRef"
    by simp
next
  fix thread
  assume "replyState state = Some thread \<and> storyId d \<noteq> Some (ReplyState.messageId thread)"
  then show "reducer isDownloaded isDownloading state (MESSAGE_CHANGED i d) = SameRef"
    by auto
next
  fix thread
  assume a: "replyState state = Some thread \<and> storyId d = Some (ReplyState.messageId thread) \<and>
      (\<forall>reply\<in>set (replies thread). id' reply \<noteq> i)"
  then have "findIndex (\<lambda>reply. id' reply = i) (replies thread) = None"
    by (simp add: findIndex_None_iff)
  with a show "reducer isDownloaded isDownloading state (MESSAGE_CHANGED i d) =
        NewObj (state\<lparr>replyState := Some (thread\<lparr>replies := replies thread @ [d]\<rparr>)\<rparr>)"
    by simp
next
  fix thread k
  assume a: "replyState state = Some thread \<and> storyId d = Some (ReplyState.messageId thread) \<and>
      firstMatch (\<lambda>reply. id' reply = i) (replies thread) k"
  then have "findIndex (\<lambda>reply. id' reply = i) (replies thread) = Some k"
    by (simp add: firstMatch_findIndex)
  with a show "reducer isDownloaded isDownloading state (MESSAGE_CHANGED i d) =
        NewObj (state\<lparr>replyState := Some (thread\<lparr>replies := (replies thread)[k := d]\<rparr>)\<rparr>)"
    by (simp add: replaceIndex_def)
qed

theorem message_changed_updates_reply_thread_witness:
  "reducer isDownloaded_model isDownloading_model (exampleState [])
     (MESSAGE_CHANGED ''r3'' (exampleMessage ''r3'' (Some ''A'') ''three'')) = SameRef \<and>
   reducer isDownloaded_model isDownloading_model exampleThread
     (MESSAGE_CHANGED ''r3'' (exampleMessage ''r3'' (Some ''B'') ''three'')) = SameRef \<and>
   reducer isDownloaded_model isDownloading_model exampleThread
     (MESSAGE_CHANGED ''r3'' (exampleMessage ''r3'' (Some ''A'') ''three'')) =
       NewObj (exampleThread\<lparr>replyState := Some \<lparr>ReplyState.messageId = ''A'',
         replies = [exampleMessage ''r1'' (Some ''A'') ''one'',
                    exampleMessage ''r2'' (Some ''A'') ''two'',
                    exampleMessage ''r3'' (Some ''A'') ''three'']\<rparr>\<rparr>) \<and>
   reducer isDownloaded_model isDownloading_model exampleThread
     (MESSAGE_CHANGED ''r1'' (exampleMessage ''r1'' (Some ''A'') ''edited'')) =
       NewObj (exampleThread\<lparr>replyState := Some \<lparr>ReplyState.messageId = ''A'',
         replies = [exampleMessage ''r1'' (Some ''A'') ''edited'',
                    exampleMessage ''r2'' (Some ''A'') ''two'']\<rparr>\<rparr>)"
proof -
  let ?thread = "\<lparr>ReplyState.messageId = ''A'',
        replies = [exampleMessage ''r1'' (Some ''A'') ''one'',
                   exampleMessage ''r2'' (Some ''A'') ''two'']\<rparr>"
  have rs: "replyState exampleThread = Some ?thread"
    by (simp add: exampleThread_def)
  have none: "replyState (exampleState []) = None"
    by (simp add: exampleState_def)
  have fm: "firstMatch (\<lambda>reply. id' reply = ''r1'') (replies ?thread) 0"
    by (simp add: firstMatch_def exampleMessage_def)
  have fresh: "\<forall>reply\<in>set (replies ?thread). id' reply \<noteq> ''r3''"
    by (simp add: exampleMessage_def)
  from message_changed_updates_reply_thread[of "exampleState []" isDownloaded_model
      isDownloading_model "''r3''" "exampleMessage ''r3'' (Some ''A'') ''three''"] none
  have a: "reducer isDownloaded_model isDownloading_model (exampleState [])
     (MESSAGE_CHANGED ''r3'' (exampleMessage ''r3'' (Some ''A'') ''three'')) = SameRef"
    by blast
  have "storyId (exampleMessage ''r3'' (Some ''B'') ''three'') \<noteq> Some (ReplyState.messageId ?thread)"
    by (simp add: exampleMessage_def)
  with message_changed_updates_reply_thread[of exampleThread isDownloaded_model
      isDownloading_model "''r3''" "exampleMessage ''r3'' (Some ''B'') ''three''"] rs
  have b: "reducer isDownloaded_model isDownloading_model exampleThread
     (MESSAGE_CHANGED ''r3'' (exampleMessage ''r3'' (Some ''B'') ''three'')) = SameRef"
    by blast
  have "storyId (exampleMessage ''r3'' (Some ''A'') ''three'') = Some (ReplyState.messageId ?thread)"
    by (simp add: exampleMessage_def)
  with message_changed_updates_reply_thread[of exampleThread isDownloaded_model
      isDownloading_model "''r3''" "exampleMessage ''r3'' (Some ''A'') ''three''"] rs fresh
  have "reducer isDownloaded_model isDownloading_model exampleThread
     (MESSAGE_CHANGED ''r3'' (exampleMessage ''r3'' (Some ''A'') ''three'')) =
       NewObj (exampleThread\<lparr>replyState := Some (?thread\<lparr>replies := replies ?thread @
         [exampleMessage ''r3'' (Some ''A'') ''three'']\<rparr>)\<rparr>)"
    by blast
  then have c: "reducer isDownloaded_model isDownloading_model exampleThread
     (MESSAGE_CHANGED ''r3'' (exampleMessage ''r3'' (Some ''A'') ''three'')) =
       NewObj (exampleThread\<lparr>replyState := Some \<lparr>ReplyState.messageId = ''A'',
         replies = [exampleMessage ''r1'' (Some ''A'') ''one'',
                    exampleMessage ''r2'' (Some ''A'') ''two'',
                    exampleMessage ''r3'' (Some ''A'') ''three'']\<rparr>\<rparr>)"
    by simp
  have "storyId (exampleMessage ''r1'' (Some ''A'') ''edited'') = Some (ReplyState.messageId ?thread)"
    by (simp add: exampleMessage_def)
  with message_changed_updates_reply_thread[of exampleThread isDownloaded_model
      isDownloading_model "''r1''" "exampleMessage ''r1'' (Some ''A'') ''edited''"] rs fm
  have "reducer isDownloaded_model isDownloading_model exampleThread
     (MESSAGE_CHANGED ''r1'' (exampleMessage ''r1'' (Some ''A'') ''edited'')) =
       NewObj (exampleThread\<lparr>replyState := Some (?thread\<lparr>replies := (replies ?thread)
         [0 := exampleMessage ''r1'' (Some ''A'') ''edited'']\<rparr>)\<rparr>)"
    by blast
  then have d: "reducer isDownloaded_model isDownloading_model exampleThread
     (MESSAGE_CHANGED ''r1'' (exampleMessage ''r1'' (Some ''A'') ''edited'')) =
       NewObj (exampleThread\<lparr>replyState := Some \<lparr>ReplyState.messageId = ''A'',
         replies = [exampleMessage ''r1'' (Some ''A'') ''edited'',
                    exampleMessage ''r2'' (Some ''A'') ''two'']\<rparr>\<rparr>)"
    by simp
  from a b c d show ?thesis by blast
qed

subsection \<open>C7: RESOLVE_ATTACHMENT_URL\<close>

text \<open>
  Claim C7: \<open>RESOLVE_ATTACHMENT_URL\<close> with an id and a url is a no-op when no view-model
  has that id or when the (first) view-model with that id has no attachment. Otherwise,
  in the resulting store, that view-model is the old one with its attachment replaced by
  the old attachment with \<open>url\<close> set: every other field of the attachment, every other
  field of the view-model, every other view-model and the rest of the store are as
  before.
\<close>

theorem resolve_attachment_url_frame:
  "((\<forall>s\<in>set (stories state). messageId s \<noteq> i) \<longrightarrow>
      reducer isDownloaded isDownloading state (RESOLVE_ATTACHMENT_URL i u) = SameRef) \<and>
   (\<forall>k. firstMatch (\<lambda>s. messageId s = i) (stories state) k \<and>
        attachment (stories state ! k) = None \<longrightarrow>
      reducer isDownloaded isDownloading state (RESOLVE_ATTACHMENT_URL i u) = SameRef) \<and>
   (\<forall>k a. firstMatch (\<lambda>s. messageId s = i) (stories state) k \<and>
        attachment (stories state ! k) = Some a \<longrightarrow>
      (\<exists>state'. reducer isDownloaded isDownloading state (RESOLVE_ATTACHMENT_URL i u) = NewObj state' \<and>
         state' = state\<lparr>stories := stories state'\<rparr> \<and>
         length (stories state') = length (stories state) \<and>
         stories state' ! k = (stories state ! k)\<lparr>attachment := Some (a\<lparr>url := Some u\<rparr>)\<rparr> \<and>
         (\<forall>j<length (stories state). j \<noteq> k \<longrightarrow> stories state' ! j = stories state ! j)))"
proof (intro conjI allI impI)
  assume "\<forall>s\<in>set (stories state). messageId s \<noteq> i"
  then have "findIndex (\<lambda>s. messageId s = i) (stories state) = None"
    by (simp add: findIndex_None_iff)
  then show "reducer isDownloaded isDownloading state (RESOLVE_ATTACHMENT_URL i u) = SameRef"
    by simp
next
  fix k
  assume a: "firstMatch (\<lambda>s. messageId s = i) (stories state) k \<and>
        attachment (stories state ! k) = None"
  then have "findIndex (\<lambda>s. messageId s = i) (stories state) = Some k"
    by (simp add: firstMatch_findIndex)
  with a show "reducer isDownloaded isDownloading state (RESOLVE_ATTACHMENT_URL i u) = SameRef"
    by simp
next
  fix k a
  assume a: "firstMatch (\<lambda>s. messageId s = i) (stories state) k \<and>
        attachment (stories state ! k) = Some a"
  then have f: "findIndex (\<lambda>s. messageId s = i) (stories state) = Some k"
    by (simp add: firstMatch_findIndex)
  from a have k: "k < length (stories state)" by (simp add: firstMatch_def)
  let ?s' = "state\<lparr>stories := (stories state)
      [k := (stories state ! k)\<lparr>attachment := Some (a\<lparr>url := Some u\<rparr>)\<rparr>]\<rparr>"
  have "reducer isDownloaded isDownloading state (RESOLVE_ATTACHMENT_URL i u) = NewObj ?s'"
    using f a by (simp add: replaceIndex_def)
  moreover have "?s' = state\<lparr>stories := stories ?s'\<rparr>" by simp
  moreover have "length (stories ?s') = length (stories state)" by simp
  moreover have "stories ?s' ! k = (stories state ! k)\<lparr>attachment := Some (a\<lparr>url := Some u\<rparr>)\<rparr>"
    using k by simp
  moreover have "\<forall>j<length (stories state). j \<noteq> k \<longrightarrow> stories ?s' ! j = stories state ! j"
    by simp
  ultimately show "\<exists>state'. reducer isDownloaded isDownloading state (RESOLVE_ATTACHMENT_URL i u) = NewObj state' \<and>
         state' = state\<lparr>stories := stories state'\<rparr> \<and>
         length (stories state') = length (stories state) \<and>
         stories state' ! k = (stories state ! k)\<lparr>attachment := Some (a\<lparr>url := Some u\<rparr>)\<rparr> \<and>
         (\<forall>j<length (stories state). j \<noteq> k \<longrightarrow> stories state' ! j = stories state ! j)"
    by blast
qed

theorem resolve_attachment_url_frame_witness:
  "reducer isDownloaded_model isDownloading_model
     (exampleState [exampleStory ''A'' 1, exampleStory ''B'' 2])
     (RESOLVE_ATTACHMENT_URL ''Z'' ''/abs/story.jpg'') = SameRef \<and>
   reducer isDownloaded_model isDownloading_model
     (exampleState [exampleStory ''A'' 1, (exampleStory ''B'' 2)\<lparr>attachment := None\<rparr>])
     (RESOLVE_ATTACHMENT_URL ''B'' ''/abs/story.jpg'') = SameRef \<and>
   reducer isDownloaded_model isDownloading_model
     (exampleState [exampleStory ''A'' 1, exampleStory ''B'' 2])
     (RESOLVE_ATTACHMENT_URL ''B'' ''/abs/story.jpg'') =
       NewObj (exampleState [exampleStory ''A'' 1,
         (exampleStory ''B'' 2)\<lparr>attachment :=
            Some ((exampleAttachment Downloaded)\<lparr>url := Some ''/abs/story.jpg''\<rparr>)\<rparr>])"
proof -
  let ?st = "exampleState [exampleStory ''A'' 1, exampleStory ''B'' 2]"
  let ?bare = "exampleState [exampleStory ''A'' 1, (exampleStory ''B'' 2)\<lparr>attachment := None\<rparr>]"
  let ?u = "''/abs/story.jpg''"
  have absent: "\<forall>s\<in>set (stories ?st). messageId s \<noteq> ''Z''"
    by (simp add: example_defs)
  with resolve_attachment_url_frame[of ?st "''Z''" isDownloaded_model isDownloading_model ?u]
  have a: "reducer isDownloaded_model isDownloading_model ?st (RESOLVE_ATTACHMENT_URL ''Z'' ?u) = SameRef"
    by blast
  have "firstMatch (\<lambda>s. messageId s = ''B'') (stories ?bare) 1 \<and> attachment (stories ?bare ! 1) = None"
    by (simp add: firstMatch_def example_defs)
  with resolve_attachment_url_frame[of ?bare "''B''" isDownloaded_model isDownloading_model ?u]
  have b: "reducer isDownloaded_model isDownloading_model ?bare (RESOLVE_ATTACHMENT_URL ''B'' ?u) = SameRef"
    by blast
  have "firstMatch (\<lambda>s. messageId s = ''B'') (stories ?st) 1 \<and>
        attachment (stories ?st ! 1) = Some (exampleAttachment Downloaded)"
    by (simp add: firstMatch_def example_defs)
  with resolve_attachment_url_frame[of ?st "''B''" isDownloaded_model isDownloading_model ?u]
  obtain state' where s': "reducer isDownloaded_model isDownloading_model ?st
        (RESOLVE_ATTACHMENT_URL ''B'' ?u) = NewObj state'"
      "state' = ?st\<lparr>stories := stories state'\<rparr>"
      "length (stories state') = length (stories ?st)"
      "stories state' ! 1 = (stories ?st ! 1)\<lparr>attachment :=
          Some ((exampleAttachment Downloaded)\<lparr>url := Some ?u\<rparr>)\<rparr>"
      "\<forall>j<length (stories ?st). j \<noteq> 1 \<longrightarrow> stories state' ! j = stories ?st ! j"
    by blast
  have len: "length (stories state') = 2"
    using s'(3) by (simp add: exampleState_def)
  have e0: "stories state' ! 0 = exampleStory ''A'' 1"
    using s'(5) by (simp add: exampleState_def)
  have e1: "stories state' ! 1 = (exampleStory ''B'' 2)\<lparr>attachment :=
          Some ((exampleAttachment Downloaded)\<lparr>url := Some ?u\<rparr>)\<rparr>"
    using s'(4) by (simp add: exampleState_def)
  have "stories state' = [exampleStory ''A'' 1, (exampleStory ''B'' 2)\<lparr>attachment :=
          Some ((exampleAttachment Downloaded)\<lparr>url := Some ?u\<rparr>)\<rparr>]"
    using len e0 e1 by (intro nth_equalityI) (auto simp: less_Suc_eq numeral_2_eq_2)
  with s'(2) have "state' = exampleState [exampleStory ''A'' 1, (exampleStory ''B'' 2)\<lparr>attachment :=
          Some ((exampleAttachment Downloaded)\<lparr>url := Some ?u\<rparr>)\<rparr>]"
    by (simp add: exampleState_def)
  with s'(1) a b show ?thesis by blast
qed

subsection \<open>C8: MESSAGE_DELETED\<close>

text \<open>
  Claim C8: \<open>MESSAGE_DELETED\<close> for an id that no view-model has returns the identical
  store. For an id that is present, in a store that satisfies the invariant of the data
  model (at most one view-model per \<open>messageId\<close>, which every transition preserves and
  every reachable store satisfies), the stories sequence loses exactly that one element
  and the others keep their order: the old sequence is \<open>pre @ x # post\<close> and the new one
  \<open>pre @ post\<close>.
\<close>

theorem message_deleted_shrinks_by_one:
  "((\<forall>s\<in>set (stories state). messageId s \<noteq> i) \<longrightarrow>
      reducer isDownloaded isDownloading state (MESSAGE_DELETED i) = SameRef) \<and>
   (uniqueMessageIds state \<and> (\<exists>s\<in>set (stories state). messageId s = i) \<longrightarrow>
      (\<exists>pre x post.
         stories state = pre @ x # post \<and> messageId x = i \<and>
         reducer isDownloaded isDownloading state (MESSAGE_DELETED i) =
           NewObj (state\<lparr>stories := pre @ post\<rparr>)))"
proof (intro conjI impI)
  assume "\<forall>s\<in>set (stories state). messageId s \<noteq> i"
  then have "filter (\<lambda>s. messageId s \<noteq> i) (stories state) = stories state"
    by simp
  then show "reducer isDownloaded isDownloading state (MESSAGE_DELETED i) = SameRef"
    by simp
next
  assume a: "uniqueMessageIds state \<and> (\<exists>s\<in>set (stories state). messageId s = i)"
  then obtain x where x: "x \<in> set (stories state)" "messageId x = i" by blast
  then obtain pre post where split: "stories state = pre @ x # post"
    by (meson split_list)
  from a split have "distinct (map messageId (pre @ x # post))"
    by (simp add: uniqueMessageIds_def)
  from filter_unique_id[OF this] x(2) split
  have f: "filter (\<lambda>s. messageId s \<noteq> i) (stories state) = pre @ post" by simp
  have "reducer isDownloaded isDownloading state (MESSAGE_DELETED i) =
          NewObj (state\<lparr>stories := pre @ post\<rparr>)"
    using f split by (simp add: Let_def)
  with split x(2) show "\<exists>pre x post.
         stories state = pre @ x # post \<and> messageId x = i \<and>
         reducer isDownloaded isDownloading state (MESSAGE_DELETED i) =
           NewObj (state\<lparr>stories := pre @ post\<rparr>)"
    by blast
qed

theorem message_deleted_shrinks_by_one_witness:
  "reducer isDownloaded_model isDownloading_model
     (exampleState [exampleStory ''A'' 1, exampleStory ''B'' 2, exampleStory ''C'' 3])
     (MESSAGE_DELETED ''Z'') = SameRef \<and>
   reducer isDownloaded_model isDownloading_model
     (exampleState [exampleStory ''A'' 1, exampleStory ''B'' 2, exampleStory ''C'' 3])
     (MESSAGE_DELETED ''B'') = NewObj (exampleState [exampleStory ''A'' 1, exampleStory ''C'' 3])"
proof -
  let ?st = "exampleState [exampleStory ''A'' 1, exampleStory ''B'' 2, exampleStory ''C'' 3]"
  note del = message_deleted_shrinks_by_one[of ?st _ isDownloaded_model isDownloading_model]
  have absent: "\<forall>s\<in>set (stories ?st). messageId s \<noteq> ''Z''"
    by (simp add: example_defs)
  have present: "uniqueMessageIds ?st \<and> (\<exists>s\<in>set (stories ?st). messageId s = ''B'')"
    by (simp add: uniqueMessageIds_def example_defs)
  from del[of "''Z''"] absent
  have a: "reducer isDownloaded_model isDownloading_model ?st (MESSAGE_DELETED ''Z'') = SameRef"
    by blast
  from del[of "''B''"] present
  obtain pre x post where p: "stories ?st = pre @ x # post" "messageId x = ''B''"
    "reducer isDownloaded_model isDownloading_model ?st (MESSAGE_DELETED ''B'') =
       NewObj (?st\<lparr>stories := pre @ post\<rparr>)"
    by blast
  have b: "reducer isDownloaded_model isDownloading_model ?st (MESSAGE_DELETED ''B'') =
       NewObj (exampleState [exampleStory ''A'' 1, exampleStory ''C'' 3])"
    by (simp add: example_defs)
  from a b show ?thesis by blast
qed

subsection \<open>C9: reactToStory\<close>

text \<open>
  Claim C9: whatever \<open>enqueueReactionForSend\<close> does, \<open>reactToStory\<close> does not reject; when
  the enqueue fails the error is logged and the toast \<open>ToastReactionFailed\<close> is shown;
  in both cases exactly one action is dispatched, the \<open>NOOP\<close> marker.
\<close>

theorem reactToStory_never_rejects:
  "rejected (reactToStory enqueueReactionForSend emoji i) = None \<and>
   dispatched (effects (reactToStory enqueueReactionForSend emoji i)) = [NOOP] \<and>
   (enqueueReactionForSend i emoji False = None \<longrightarrow>
      effects (reactToStory enqueueReactionForSend emoji i) =
        [EnqueueReactionForSend i emoji False, Dispatch NOOP]) \<and>
   (\<forall>error. enqueueReactionForSend i emoji False = Some error \<longrightarrow>
      effects (reactToStory enqueueReactionForSend emoji i) =
        [EnqueueReactionForSend i emoji False,
         Log_error ''Error enqueuing reaction'' error i emoji,
         ShowToast ToastReactionFailed,
         Dispatch NOOP])"
  by (cases "enqueueReactionForSend i emoji False") (simp_all add: reactToStory_def)

theorem reactToStory_never_rejects_witness:
  "enqueueFails ''A'' ''heart'' False = Some ''offline'' \<and>
   (reactToStory enqueueFails ''heart'' ''A'' :: ExampleRun) =
     \<lparr>effects = [EnqueueReactionForSend ''A'' ''heart'' False,
                 Log_error ''Error enqueuing reaction'' ''offline'' ''A'' ''heart'',
                 ShowToast ToastReactionFailed,
                 Dispatch NOOP],
      rejected = None\<rparr> \<and>
   enqueueResolves ''A'' ''heart'' False = None \<and>
   (reactToStory enqueueResolves ''heart'' ''A'' :: ExampleRun) =
     \<lparr>effects = [EnqueueReactionForSend ''A'' ''heart'' False, Dispatch NOOP],
      rejected = None\<rparr>"
proof -
  have h: "enqueueFails ''A'' ''heart'' False = Some ''offline''"
    by (simp add: enqueueFails_def)
  have "effects (reactToStory enqueueFails ''heart'' ''A'' :: ExampleRun) =
      [EnqueueReactionForSend ''A'' ''heart'' False,
       Log_error ''Error enqueuing reaction'' ''offline'' ''A'' ''heart'',
       ShowToast ToastReactionFailed, Dispatch NOOP] \<and>
        rejected (reactToStory enqueueFails ''heart'' ''A'' :: ExampleRun) = None"
    using reactToStory_never_rejects[of enqueueFails "''heart''" "''A''"] h by blast
  then have a: "(reactToStory enqueueFails ''heart'' ''A'' :: ExampleRun) =
     \<lparr>effects = [EnqueueReactionForSend ''A'' ''heart'' False,
                 Log_error ''Error enqueuing reaction'' ''offline'' ''A'' ''heart'',
                 ShowToast ToastReactionFailed,
                 Dispatch NOOP],
      rejected = None\<rparr>"
    by (cases "reactToStory enqueueFails ''heart'' ''A'' :: ExampleRun") simp
  have g: "enqueueResolves ''A'' ''heart'' False = None"
    by (simp add: enqueueResolves_def)
  have "effects (reactToStory enqueueResolves ''heart'' ''A'' :: ExampleRun) =
      [EnqueueReactionForSend ''A'' ''heart'' False, Dispatch NOOP] \<and>
        rejected (reactToStory enqueueResolves ''heart'' ''A'' :: ExampleRun) = None"
    using reactToStory_never_rejects[of enqueueResolves "''heart''" "''A''"] g by blast
  then have b: "(reactToStory enqueueResolves ''heart'' ''A'' :: ExampleRun) =
     \<lparr>effects = [EnqueueReactionForSend ''A'' ''heart'' False, Dispatch NOOP],
      rejected = None\<rparr>"
    by (cases "reactToStory enqueueResolves ''heart'' ''A'' :: ExampleRun") simp
  from h a g b show ?thesis by blast
qed

subsection \<open>C10: canEditMessage and deleted messages\<close>

text \<open>
  Claim C10: for every message whose \<open>deletedForEveryone\<close> flag is set, \<open>canEditMessage\<close>
  is false, whatever the other fields of the message and whatever the helpers answer.
\<close>

theorem canEditMessage_deleted:
  "MessageAttributesType.deletedForEveryone message \<Longrightarrow>
   \<not> canEditMessage canEditMessages isOutgoing isMoreRecentThan someSendStatus isSent
       getOurConversationId message"
  by (simp add: canEditMessage_def)

theorem canEditMessage_deleted_witness:
  "MessageAttributesType.deletedForEveryone
     ((exampleMessage ''m'' None ''hello'')\<lparr>MessageAttributesType.deletedForEveryone := True\<rparr>) \<and>
   \<not> canEditMessage True (\<lambda>m. True) (\<lambda>t d. True) (\<lambda>m p. True) (\<lambda>s. True) (Some ''conversation'')
       ((exampleMessage ''m'' None ''hello'')\<lparr>MessageAttributesType.deletedForEveryone := True\<rparr>) \<and>
   canEditMessage True (\<lambda>m. True) (\<lambda>t d. True) (\<lambda>m p. True) (\<lambda>s. True) (Some ''conversation'')
       (exampleMessage ''m'' None ''hello'')"
proof -
  have h: "MessageAttributesType.deletedForEveryone
     ((exampleMessage ''m'' None ''hello'')\<lparr>MessageAttributesType.deletedForEveryone := True\<rparr>)"
    by simp
  have "canEditMessage True (\<lambda>m. True) (\<lambda>t d. True) (\<lambda>m p. True) (\<lambda>s. True) (Some ''conversation'')
       (exampleMessage ''m'' None ''hello'')"
    by (simp add: canEditMessage_def exampleMessage_def MAX_EDIT_COUNT_def)
  with h canEditMessage_deleted[OF h] show ?thesis by blast
qed

end
